theory Spec2Isabelle
  imports Complex_Main "HOL-Library.AList"
begin

section \<open>Data model\<close>

text \<open>
  Timestamps are JavaScript \<open>Date\<close> values read through \<open>getTime()\<close>: integer milliseconds.
  Strings are lists of characters; identifiers (\<open>_id\<close>) are the strings the driver prints.
\<close>

record SessionInfo =
  sessionId :: string
  createdAt :: int
  lastActivity :: int

text \<open>\<open>SearchFilters\<close> of searchService.ts (every field optional).\<close>

record SearchFilters =
  sf_precio :: "string option"
  sf_categoria :: "string option"
  sf_condicion :: "string option"
  sf_ordenar :: "string option"
  sf_ordenPrecio :: "string option"

text \<open>The three collections of models/Search.ts and models/Click.ts.\<close>

record SearchHistoryDoc =
  h_id :: string
  userId :: string
  queryText :: string
  filters :: SearchFilters
  sortBy :: "string option"
  sortDir :: "string option"
  h_page :: int
  h_pageSize :: int
  requestedAt :: int
  results :: "string list"

record SearchQueryDoc =
  q_id :: string
  valor_busqueda :: string
  q_fecha :: int

text \<open>
  A click document. \<open>c_id_producto = None\<close> stands for a stored document whose
  \<open>id_producto\<close> is missing or \<open>null\<close> (the aggregation pipeline filters on it);
  \<open>c_userId = None\<close> for a click without owner.
\<close>

record ClickDoc =
  c_id :: string
  c_id_producto :: "string option"
  c_nombre :: string
  c_fecha :: int
  c_userId :: "string option"

text \<open>
  Store calls that can throw (the database is unreachable, the driver rejects the call).
  Which calls throw is decided by the environment: a predicate on the call.
\<close>

datatype storeOp =
    HistoryDeleteMany string
  | ClickDeleteMany string
  | HistoryDeleteOne string string
  | HistorySave
  | QueryCreate
  | ClickCreate
  | ClickCount
  | ClickAggregate
  | ClickFind

datatype error =
    StoreFailure storeOp
  | ValidationError string
  | CatalogError string

text \<open>What the code writes to the console, one constructor per call site that matters.\<close>

datatype logline =
    LogSessionCreated string
  | LogSessionCleaned string nat nat
  | LogCleanupError string error
  | LogClosing string
  | LogSweep nat
  | LogQuerySaved string
  | LogHistorySaved string bool
  | LogSearchError error
  | LogDeleteError error

text \<open>
  The process state: the module-level \<open>activeSessions\<close> map (a JavaScript \<open>Map\<close>: keys in
  insertion order, \<open>set\<close> on a present key replaces the value in place), the three
  collections and the console.
\<close>

record world =
  activeSessions :: "(string \<times> SessionInfo) list"
  search_history :: "SearchHistoryDoc list"
  search_queries :: "SearchQueryDoc list"
  clicks :: "ClickDoc list"
  console :: "logline list"

text \<open>An asynchronous call either resolves with a value or rejects; both carry the state reached.\<close>

datatype 'a res = Ok 'a world | Throw error world

section \<open>sessionService.ts\<close>

definition SESSION_TIMEOUT :: int where
  "SESSION_TIMEOUT = 12 * 60 * 60 * 1000"

definition CLEANUP_INTERVAL :: int where
  "CLEANUP_INTERVAL = 5 * 60 * 1000"

definition registerSession :: "int \<Rightarrow> string \<Rightarrow> world \<Rightarrow> world" where
  "registerSession now sid w =
     (case map_of (activeSessions w) sid of
        Some session \<Rightarrow>
          w\<lparr>activeSessions := AList.update sid (session\<lparr>lastActivity := now\<rparr>) (activeSessions w)\<rparr>
      | None \<Rightarrow>
          w\<lparr>activeSessions :=
              AList.update sid \<lparr>sessionId = sid, createdAt = now, lastActivity = now\<rparr>
                (activeSessions w),
            console := console w @ [LogSessionCreated sid]\<rparr>)"

definition isSessionActive :: "int \<Rightarrow> string \<Rightarrow> world \<Rightarrow> bool" where
  "isSessionActive now sid w =
     (case map_of (activeSessions w) sid of
        None \<Rightarrow> False
      | Some session \<Rightarrow> now - lastActivity session < SESSION_TIMEOUT)"

definition getSession :: "int \<Rightarrow> string \<Rightarrow> world \<Rightarrow> SessionInfo option" where
  "getSession now sid w =
     (if \<not> isSessionActive now sid w then None else map_of (activeSessions w) sid)"

subsection \<open>Owner ids\<close>

definition startsWith :: "'a list \<Rightarrow> 'a list \<Rightarrow> bool" where
  "startsWith s p = (take (length p) s = p)"

text \<open>
  \<open>String.prototype.replace\<close> with a string pattern: the first occurrence of the pattern,
  scanning from the left, is replaced; a string without the pattern is returned unchanged.
\<close>

fun replaceFirst :: "'a list \<Rightarrow> 'a list \<Rightarrow> 'a list \<Rightarrow> 'a list" where
  "replaceFirst pat rep [] = (if pat = [] then rep else [])"
| "replaceFirst pat rep (c # cs) =
     (if startsWith (c # cs) pat then rep @ drop (length pat) (c # cs)
      else c # replaceFirst pat rep cs)"

definition getAnonymousUserId :: "string \<Rightarrow> string" where
  "getAnonymousUserId sid = ''anonymous_'' @ sid"

definition isAnonymousUserId :: "string \<Rightarrow> bool" where
  "isAnonymousUserId uid = startsWith uid ''anonymous_''"

definition extractSessionId :: "string \<Rightarrow> string option" where
  "extractSessionId uid =
     (if \<not> isAnonymousUserId uid then None
      else Some (replaceFirst ''anonymous_'' [] uid))"

subsection \<open>Cascade deletion and the sweep\<close>

text \<open>\<open>Model.deleteMany({userId})\<close>: removes every document of the owner, reports the count.\<close>

definition SearchHistory_deleteMany ::
  "(storeOp \<Rightarrow> bool) \<Rightarrow> string \<Rightarrow> world \<Rightarrow> nat res" where
  "SearchHistory_deleteMany fails owner w =
     (if fails (HistoryDeleteMany owner) then Throw (StoreFailure (HistoryDeleteMany owner)) w
      else Ok (length (filter (\<lambda>d. userId d = owner) (search_history w)))
             (w\<lparr>search_history := filter (\<lambda>d. userId d \<noteq> owner) (search_history w)\<rparr>))"

definition Click_deleteMany ::
  "(storeOp \<Rightarrow> bool) \<Rightarrow> string \<Rightarrow> world \<Rightarrow> nat res" where
  "Click_deleteMany fails owner w =
     (if fails (ClickDeleteMany owner) then Throw (StoreFailure (ClickDeleteMany owner)) w
      else Ok (length (filter (\<lambda>d. c_userId d = Some owner) (clicks w)))
             (w\<lparr>clicks := filter (\<lambda>d. c_userId d \<noteq> Some owner) (clicks w)\<rparr>))"

text \<open>The body of the \<open>try\<close> block of \<open>cleanupSessionHistory\<close>.\<close>

definition cleanupSessionHistory_try ::
  "(storeOp \<Rightarrow> bool) \<Rightarrow> string \<Rightarrow> world \<Rightarrow> unit res" where
  "cleanupSessionHistory_try fails sid w =
     (case SearchHistory_deleteMany fails (''anonymous_'' @ sid) w of
        Throw e w1 \<Rightarrow> Throw e w1
      | Ok deletedSearches w1 \<Rightarrow>
          (case Click_deleteMany fails (''anonymous_'' @ sid) w1 of
             Throw e w2 \<Rightarrow> Throw e w2
           | Ok deletedClicks w2 \<Rightarrow>
               Ok () (w2\<lparr>console := console w2 @ [LogSessionCleaned sid deletedSearches deletedClicks],
                         activeSessions := AList.delete sid (activeSessions w2)\<rparr>)))"

definition cleanupSessionHistory ::
  "(storeOp \<Rightarrow> bool) \<Rightarrow> string \<Rightarrow> world \<Rightarrow> unit res" where
  "cleanupSessionHistory fails sid w =
     (case cleanupSessionHistory_try fails sid w of
        Ok u w' \<Rightarrow> Ok u w'
      | Throw e w' \<Rightarrow> Ok () (w'\<lparr>console := console w' @ [LogCleanupError sid e]\<rparr>))"

definition closeSession :: "(storeOp \<Rightarrow> bool) \<Rightarrow> string \<Rightarrow> world \<Rightarrow> unit res" where
  "closeSession fails sid w =
     (if sid = [] then Ok () w
      else cleanupSessionHistory fails sid (w\<lparr>console := console w @ [LogClosing sid]\<rparr>))"

text \<open>The \<open>forEach\<close> scan of \<open>cleanupExpiredSessions\<close>: the ids pushed to \<open>expiredSessions\<close>.\<close>

definition expiredSessions :: "int \<Rightarrow> (string \<times> SessionInfo) list \<Rightarrow> string list" where
  "expiredSessions now m =
     map fst (filter (\<lambda>(sid, session). now - lastActivity session \<ge> SESSION_TIMEOUT) m)"

text \<open>The \<open>for ... of\<close> loop: one awaited cleanup per collected id; a rejection would end it.\<close>

fun cleanupEach :: "(storeOp \<Rightarrow> bool) \<Rightarrow> string list \<Rightarrow> world \<Rightarrow> unit res" where
  "cleanupEach fails [] w = Ok () w"
| "cleanupEach fails (sid # sids) w =
     (case cleanupSessionHistory fails sid w of
        Throw e w' \<Rightarrow> Throw e w'
      | Ok u w' \<Rightarrow> cleanupEach fails sids w')"

definition cleanupExpiredSessions :: "(storeOp \<Rightarrow> bool) \<Rightarrow> int \<Rightarrow> world \<Rightarrow> unit res" where
  "cleanupExpiredSessions fails now w =
     (let expired = expiredSessions now (activeSessions w) in
      case cleanupEach fails expired w of
        Throw e w' \<Rightarrow> Throw e w'
      | Ok u w' \<Rightarrow>
          if length expired > 0 then Ok () (w'\<lparr>console := console w' @ [LogSweep (length expired)]\<rparr>)
          else Ok () w')"

text \<open>
  Whether the cascade of a session meets a failing store call, and the state one call of
  \<open>cleanupSessionHistory\<close> leaves, written out branch by branch (used in the proofs).
\<close>

definition cascadeFails :: "(storeOp \<Rightarrow> bool) \<Rightarrow> string \<Rightarrow> bool" where
  "cascadeFails fails sid =
     (fails (HistoryDeleteMany (''anonymous_'' @ sid)) \<or>
      fails (ClickDeleteMany (''anonymous_'' @ sid)))"

definition afterCleanup :: "(storeOp \<Rightarrow> bool) \<Rightarrow> string \<Rightarrow> world \<Rightarrow> world" where
  "afterCleanup fails sid w =
     (if fails (HistoryDeleteMany (''anonymous_'' @ sid)) then
        w\<lparr>console := console w @
             [LogCleanupError sid (StoreFailure (HistoryDeleteMany (''anonymous_'' @ sid)))]\<rparr>
      else if fails (ClickDeleteMany (''anonymous_'' @ sid)) then
        w\<lparr>search_history := filter (\<lambda>d. userId d \<noteq> ''anonymous_'' @ sid) (search_history w),
          console := console w @
             [LogCleanupError sid (StoreFailure (ClickDeleteMany (''anonymous_'' @ sid)))]\<rparr>
      else
        w\<lparr>search_history := filter (\<lambda>d. userId d \<noteq> ''anonymous_'' @ sid) (search_history w),
          clicks := filter (\<lambda>d. c_userId d \<noteq> Some (''anonymous_'' @ sid)) (clicks w),
          console := console w @
            [LogSessionCleaned sid
               (length (filter (\<lambda>d. userId d = ''anonymous_'' @ sid) (search_history w)))
               (length (filter (\<lambda>d. c_userId d = Some (''anonymous_'' @ sid)) (clicks w)))],
          activeSessions := AList.delete sid (activeSessions w)\<rparr>)"

definition noFaults :: "storeOp \<Rightarrow> bool" where
  "noFaults call = False"

section \<open>String helpers of the host language\<close>

text \<open>
  \<open>trim\<close> removes leading and trailing white space (the ASCII white-space characters; the
  non-ASCII ones of ECMAScript are outside the 8-bit characters used here), \<open>includes_s\<close> is
  the substring test. A string is truthy when it is defined and not empty.
\<close>

definition isWhiteSpace :: "char \<Rightarrow> bool" where
  "isWhiteSpace c =
     (c = CHR '' '' \<or> c = CHR 0x09 \<or> c = CHR 0x0A \<or> c = CHR 0x0B \<or> c = CHR 0x0C \<or> c = CHR 0x0D)"

definition trim :: "string \<Rightarrow> string" where
  "trim s = rev (dropWhile isWhiteSpace (rev (dropWhile isWhiteSpace s)))"

fun includes_s :: "'a list \<Rightarrow> 'a list \<Rightarrow> bool" where
  "includes_s [] sub = (sub = [])"
| "includes_s (c # cs) sub = (startsWith (c # cs) sub \<or> includes_s cs sub)"

definition truthy :: "string option \<Rightarrow> bool" where
  "truthy s = (case s of None \<Rightarrow> False | Some t \<Rightarrow> t \<noteq> [])"

text \<open>
  \<open>Array.prototype.slice(start, end)\<close>: a negative index counts from the end, indices are
  clamped to the array.
\<close>

definition js_slice :: "int \<Rightarrow> int \<Rightarrow> 'a list \<Rightarrow> 'a list" where
  "js_slice start fin xs =
     (let len = int (length xs);
          k = (if start < 0 then max (len + start) 0 else min start len);
          final = (if fin < 0 then max (len + fin) 0 else min fin len)
      in take (nat (final - k)) (drop (nat k) xs))"

text \<open>A number that may be non-finite: the quotient by a zero page size is \<open>Infinity\<close> or \<open>NaN\<close>.\<close>

datatype jsnum = Fin int | Infinity | NaN

definition Math_ceil_div :: "nat \<Rightarrow> int \<Rightarrow> jsnum" where
  "Math_ceil_div a b =
     (if b = 0 then (if a = 0 then NaN else Infinity)
      else Fin \<lceil>(of_nat a :: rat) / of_int b\<rceil>)"

definition js_less :: "int \<Rightarrow> jsnum \<Rightarrow> bool" where
  "js_less a b = (case b of Fin n \<Rightarrow> a < n | Infinity \<Rightarrow> True | NaN \<Rightarrow> False)"

section \<open>searchService.ts\<close>

record SaveHistoryData =
  d_userId :: string
  d_queryText :: string
  d_filters :: "SearchFilters option"
  d_sortBy :: "string option"
  d_sortDir :: "string option"
  d_page :: "int option"
  d_pageSize :: "int option"
  d_results :: "string list"
  d_isAnonymous :: "bool option"

definition noFilters :: SearchFilters where
  "noFilters = \<lparr>sf_precio = None, sf_categoria = None, sf_condicion = None,
                sf_ordenar = None, sf_ordenPrecio = None\<rparr>"

text \<open>\<open>x || d\<close> on an optional number: the default replaces \<open>undefined\<close> and \<open>0\<close>.\<close>

definition orDefault :: "int option \<Rightarrow> int \<Rightarrow> int" where
  "orDefault x d = (case x of None \<Rightarrow> d | Some n \<Rightarrow> if n = 0 then d else n)"

text \<open>
  \<open>saveSearchHistory\<close>: \<open>save()\<close> validates the schema of models/Search.ts first (\<open>userId\<close> and
  \<open>queryText\<close> are required strings; a required string must not be empty), then inserts.
  The document id is the fresh identifier the driver generates.
\<close>

definition saveSearchHistory ::
  "(storeOp \<Rightarrow> bool) \<Rightarrow> int \<Rightarrow> string \<Rightarrow> SaveHistoryData \<Rightarrow> world \<Rightarrow> SearchHistoryDoc res" where
  "saveSearchHistory fails now newId data w =
     (let searchHistory =
            \<lparr>h_id = newId, userId = d_userId data, queryText = d_queryText data,
             filters = (case d_filters data of None \<Rightarrow> noFilters | Some f \<Rightarrow> f),
             sortBy = d_sortBy data, sortDir = d_sortDir data,
             h_page = orDefault (d_page data) 1, h_pageSize = orDefault (d_pageSize data) 20,
             requestedAt = now, results = d_results data\<rparr>
      in if d_userId data = [] \<or> d_queryText data = []
         then Throw (ValidationError ''SearchHistory validation failed'') w
         else if fails HistorySave then Throw (StoreFailure HistorySave) w
         else Ok searchHistory
                (w\<lparr>search_history := search_history w @ [searchHistory],
                   console := console w @
                     [LogHistorySaved (d_userId data) (d_isAnonymous data = Some True)]\<rparr>))"

definition saveSearchQuery ::
  "(storeOp \<Rightarrow> bool) \<Rightarrow> int \<Rightarrow> string \<Rightarrow> string \<Rightarrow> world \<Rightarrow> unit res" where
  "saveSearchQuery fails now newId text w =
     (if text \<noteq> [] \<and> trim text \<noteq> [] then
        (if fails QueryCreate then Throw (StoreFailure QueryCreate) w
         else Ok () (w\<lparr>search_queries := search_queries w @
                          [\<lparr>q_id = newId, valor_busqueda = trim text, q_fecha = now\<rparr>],
                        console := console w @ [LogQuerySaved text]\<rparr>))
      else Ok () w)"

text \<open>\<open>find({userId}).sort({requestedAt: -1}).limit(limit)\<close>, newest first.\<close>

definition getSearchHistory :: "string option \<Rightarrow> nat \<Rightarrow> world \<Rightarrow> SearchHistoryDoc list" where
  "getSearchHistory uid limit w =
     (if \<not> truthy uid then []
      else take limit (sort_key (\<lambda>d. - requestedAt d)
             (filter (\<lambda>d. Some (userId d) = uid) (search_history w))))"

text \<open>\<open>Model.deleteOne(filter)\<close>: removes the first document that matches, reports the count.\<close>

fun deleteOne :: "('a \<Rightarrow> bool) \<Rightarrow> 'a list \<Rightarrow> nat \<times> 'a list" where
  "deleteOne P [] = (0, [])"
| "deleteOne P (x # xs) =
     (if P x then (1, xs) else (fst (deleteOne P xs), x # snd (deleteOne P xs)))"

definition deleteSearchHistory ::
  "(storeOp \<Rightarrow> bool) \<Rightarrow> string \<Rightarrow> string \<Rightarrow> world \<Rightarrow> bool res" where
  "deleteSearchHistory fails searchId uid w =
     (if fails (HistoryDeleteOne searchId uid)
      then Throw (StoreFailure (HistoryDeleteOne searchId uid)) w
      else (let result = deleteOne (\<lambda>d. h_id d = searchId \<and> userId d = uid) (search_history w)
            in Ok (fst result > 0) (w\<lparr>search_history := snd result\<rparr>)))"

definition clearUserHistory :: "(storeOp \<Rightarrow> bool) \<Rightarrow> string \<Rightarrow> world \<Rightarrow> nat res" where
  "clearUserHistory fails uid w = SearchHistory_deleteMany fails uid w"

definition saveClick ::
  "(storeOp \<Rightarrow> bool) \<Rightarrow> int \<Rightarrow> string \<Rightarrow> string \<Rightarrow> string \<Rightarrow> string option \<Rightarrow> world \<Rightarrow> unit res" where
  "saveClick fails now newId pid nombre uid w =
     (if pid = [] \<or> nombre = [] then Throw (ValidationError ''Click validation failed'') w
      else if fails ClickCreate then Throw (StoreFailure ClickCreate) w
      else Ok () (w\<lparr>clicks := clicks w @
                     [\<lparr>c_id = newId, c_id_producto = Some pid, c_nombre = nombre,
                       c_fecha = now, c_userId = uid\<rparr>]\<rparr>))"

section \<open>productsService.ts\<close>

record Multimedia =
  url :: string
  orden :: int

record ProductoData =
  pd_precio :: int
  pd_categoria :: string
  pd_condicion :: string
  pd_stock :: int
  pd_marca :: string

record PublicacionFromAPI =
  pub_id :: string
  pub_id_producto :: string
  pub_titulo :: string
  pub_descripcion :: string
  pub_multimedia :: "Multimedia list"
  pub_producto :: "ProductoData option"

text \<open>Prices are whole amounts (CLP).\<close>

record ProductoNormalizado =
  p_id :: string
  id_producto :: string
  titulo :: string
  descripcion :: string
  precio :: int
  categoria :: string
  condicion :: string
  stock :: int
  marca :: string
  multimedia :: "Multimedia list"
  imagen :: "string option"

record FilterOptions =
  fo_busqueda :: "string option"
  fo_precio_min :: "int option"
  fo_precio_max :: "int option"
  fo_categoria :: "string option"
  fo_condicion :: "string option"
  fo_ordenar :: "string option"
  fo_page :: "int option"
  fo_pageSize :: "int option"

record Metadata =
  md_total :: nat
  md_page :: int
  md_pageSize :: int
  totalPages :: jsnum
  hasMore :: bool

record PaginatedResponse =
  productos :: "ProductoNormalizado list"
  metadata :: Metadata

text \<open>
  What the service reads from its surroundings: the dummy switch, the fixture file (already
  in normalised form), the answer of \<open>GET /publicaciones\<close> (\<open>Inl\<close> the message of a failed
  call, \<open>Inr\<close> the array of publications; an answer without an array counts as the empty
  array) and the host's \<open>toLowerCase\<close>.
\<close>

record CatalogEnv =
  USE_DUMMY_PRODUCTS :: bool
  productosDemo :: "ProductoNormalizado list"
  publicaciones :: "string + PublicacionFromAPI list"
  toLowerCase :: "string \<Rightarrow> string"

text \<open>
  \<open>normalizePublicacion\<close>: \<open>sort\<close> orders \<open>pub.multimedia\<close> in place (stable, by \<open>orden\<close>), so the
  normalised product carries the sorted array and its first url.
\<close>

definition normalizePublicacion :: "PublicacionFromAPI \<Rightarrow> ProductoNormalizado option" where
  "normalizePublicacion pub =
     (case pub_producto pub of
        None \<Rightarrow> None
      | Some pr \<Rightarrow>
          (let ms = sort_key orden (pub_multimedia pub) in
           Some \<lparr>p_id = pub_id pub, id_producto = pub_id_producto pub, titulo = pub_titulo pub,
                 descripcion = pub_descripcion pub, precio = pd_precio pr,
                 categoria = pd_categoria pr, condicion = pd_condicion pr, stock = pd_stock pr,
                 marca = pd_marca pr, multimedia = ms,
                 imagen = (case ms of [] \<Rightarrow> None | m # rest \<Rightarrow> Some (url m))\<rparr>))"

definition fetchTodosProductos :: "CatalogEnv \<Rightarrow> error + ProductoNormalizado list" where
  "fetchTodosProductos env =
     (if USE_DUMMY_PRODUCTS env then Inr (productosDemo env)
      else (case publicaciones env of
              Inl msg \<Rightarrow> Inl (CatalogError (''No se pudo conectar con la API de publicaciones: '' @ msg))
            | Inr data \<Rightarrow>
                if length data > 0 then Inr (List.map_filter normalizePublicacion data)
                else Inl (CatalogError
                  (''No se pudo conectar con la API de publicaciones: '' @ ''API no retorno datos''))))"

text \<open>Steps 2 to 4 of \<open>searchAndFilterProducts\<close>: the narrowing passes, in the source's order.\<close>

definition applyFilters ::
  "CatalogEnv \<Rightarrow> FilterOptions \<Rightarrow> ProductoNormalizado list \<Rightarrow> ProductoNormalizado list" where
  "applyFilters env fo todosProductos =
     (let busqueda = (case fo_busqueda fo of None \<Rightarrow> [] | Some b \<Rightarrow> b);
          f1 = (if busqueda \<noteq> [] \<and> trim busqueda \<noteq> [] then
                  (let searchLower = trim (toLowerCase env busqueda) in
                   filter (\<lambda>p. includes_s (toLowerCase env (titulo p)) searchLower \<or>
                                includes_s (toLowerCase env (descripcion p)) searchLower \<or>
                                includes_s (toLowerCase env (marca p)) searchLower) todosProductos)
                else todosProductos);
          f2 = (case fo_precio_min fo of None \<Rightarrow> f1
                | Some lo \<Rightarrow> filter (\<lambda>p. precio p \<ge> lo) f1);
          f3 = (case fo_precio_max fo of None \<Rightarrow> f2
                | Some hi \<Rightarrow> filter (\<lambda>p. precio p \<le> hi) f2);
          f4 = (case fo_categoria fo of None \<Rightarrow> f3
                | Some c \<Rightarrow>
                    if c \<noteq> [] then
                      filter (\<lambda>p. toLowerCase env (categoria p) = toLowerCase env c) f3
                    else f3);
          f5 = (case fo_condicion fo of None \<Rightarrow> f4
                | Some c \<Rightarrow>
                    if c \<noteq> [] then
                      filter (\<lambda>p. toLowerCase env (condicion p) = toLowerCase env c) f4
                    else f4)
      in f5)"

text \<open>Step 5: the stable sort by price.\<close>

definition applyOrdenar :: "string option \<Rightarrow> ProductoNormalizado list \<Rightarrow> ProductoNormalizado list" where
  "applyOrdenar ordenar ps =
     (if truthy ordenar then
        (if ordenar = Some ''precio-asc'' then sort_key precio ps
         else if ordenar = Some ''precio-desc'' then sort_key (\<lambda>p. - precio p) ps
         else ps)
      else ps)"

text \<open>Step 6: pagination; \<open>page\<close> defaults to 1 and \<open>pageSize\<close> to 20 when not given.\<close>

definition paginate :: "int \<Rightarrow> int \<Rightarrow> ProductoNormalizado list \<Rightarrow> PaginatedResponse" where
  "paginate page pageSize productosFiltrados =
     (let total = length productosFiltrados;
          totalPagesV = Math_ceil_div total pageSize;
          startIndex = (page - 1) * pageSize;
          endIndex = startIndex + pageSize;
          productosPaginados = js_slice startIndex endIndex productosFiltrados
      in \<lparr>productos = productosPaginados,
          metadata = \<lparr>md_total = total, md_page = page, md_pageSize = pageSize,
                      totalPages = totalPagesV, hasMore = js_less page totalPagesV\<rparr>\<rparr>)"

definition searchAndFilterProducts :: "CatalogEnv \<Rightarrow> FilterOptions \<Rightarrow> error + PaginatedResponse" where
  "searchAndFilterProducts env fo =
     (case fetchTodosProductos env of
        Inl e \<Rightarrow> Inl e
      | Inr todosProductos \<Rightarrow>
          Inr (paginate (case fo_page fo of None \<Rightarrow> 1 | Some p \<Rightarrow> p)
                        (case fo_pageSize fo of None \<Rightarrow> 20 | Some n \<Rightarrow> n)
                        (applyOrdenar (fo_ordenar fo) (applyFilters env fo todosProductos))))"

definition emptyFilterOptions :: FilterOptions where
  "emptyFilterOptions =
     \<lparr>fo_busqueda = None, fo_precio_min = None, fo_precio_max = None, fo_categoria = None,
      fo_condicion = None, fo_ordenar = None, fo_page = None, fo_pageSize = None\<rparr>"

text \<open>\<open>getProductos()\<close> without a category filter, as the analytics service calls it.\<close>

definition getProductos :: "CatalogEnv \<Rightarrow> error + ProductoNormalizado list" where
  "getProductos env =
     (if USE_DUMMY_PRODUCTS env then Inr (productosDemo env)
      else (case publicaciones env of
              Inl msg \<Rightarrow> Inl (CatalogError (''No se pudo obtener productos: '' @ msg))
            | Inr data \<Rightarrow>
                if length data > 0 then Inr (List.map_filter normalizePublicacion data)
                else Inl (CatalogError (''No se pudo obtener productos: '' @ ''API no retorno datos''))))"

section \<open>analyticsService.ts\<close>

text \<open>
  A JSON value and a plain object as a list of its fields. \<open>clickFields\<close> is the stored
  document of a click: the identifier the database assigns, the schema fields that are
  present, the owner when the click has one.
\<close>

datatype jv = JStr string | JDate int | JNull





text \<open>
  The aggregation of \<open>getPopularProducts\<close>. \<open>$match\<close> keeps the clicks whose \<open>id_producto\<close>
  exists and is neither \<open>null\<close> nor empty; \<open>$group\<close> yields one document per product id with
  the number of its clicks, the latest date and the first name; \<open>$sort\<close> orders by count,
  largest first; \<open>$limit\<close> keeps the first documents. The server fixes no order among
  groups of equal count: here groups start in order of first occurrence and the sort is
  stable.
\<close>

definition validClick :: "ClickDoc \<Rightarrow> bool" where
  "validClick c = (case c_id_producto c of None \<Rightarrow> False | Some p \<Rightarrow> p \<noteq> [])"

record ClickGroup =
  g_id :: string
  g_clickCount :: nat
  g_lastClick :: int
  g_nombre :: string

fun firstOccurrences :: "'a list \<Rightarrow> 'a list" where
  "firstOccurrences [] = []"
| "firstOccurrences (x # xs) = x # filter (\<lambda>y. y \<noteq> x) (firstOccurrences xs)"

definition groupOf :: "ClickDoc list \<Rightarrow> string \<Rightarrow> ClickGroup" where
  "groupOf cs pid =
     (let mine = filter (\<lambda>c. c_id_producto c = Some pid) cs in
      \<lparr>g_id = pid, g_clickCount = length mine,
       g_lastClick = foldl max (c_fecha (hd mine)) (map c_fecha mine),
       g_nombre = c_nombre (hd mine)\<rparr>)"

definition groupClicks :: "ClickDoc list \<Rightarrow> ClickGroup list" where
  "groupClicks cs = map (groupOf cs) (firstOccurrences (List.map_filter c_id_producto cs))"

definition sortByClicksDesc :: "ClickGroup list \<Rightarrow> ClickGroup list" where
  "sortByClicksDesc gs = sort_key (\<lambda>g. - int (g_clickCount g)) gs"

definition topClicks :: "nat \<Rightarrow> ClickDoc list \<Rightarrow> ClickGroup list" where
  "topClicks limit cs = take limit (sortByClicksDesc (groupClicks (filter validClick cs)))"

text \<open>
  An entry of the answer. \<open>producto\<close> is the catalog product (\<open>Found\<close>), \<open>null\<close> when the
  catalog list has no product of that id, or missing from the object when the catalog call
  failed and the raw aggregation is returned.
\<close>

datatype prodfield = Absent | Null | Found ProductoNormalizado

record PopularEntry =
  pe_id_producto :: string
  pe_nombre :: string
  clickCount :: nat
  lastClick :: int
  producto :: prodfield

definition joinProducto :: "ProductoNormalizado list \<Rightarrow> string \<Rightarrow> prodfield" where
  "joinProducto ps pid =
     (case find (\<lambda>p. id_producto p = pid) ps of None \<Rightarrow> Null | Some p \<Rightarrow> Found p)"

definition entryOf :: "prodfield \<Rightarrow> ClickGroup \<Rightarrow> PopularEntry" where
  "entryOf pf g =
     \<lparr>pe_id_producto = g_id g, pe_nombre = g_nombre g, clickCount = g_clickCount g,
      lastClick = g_lastClick g, producto = pf\<rparr>"

text \<open>
  \<open>getPopularProductsFromDummy\<close>: the counting loop over the fixture with a \<open>Map\<close> (keys in
  insertion order), the join, the stable sort by count and \<open>slice(0, limit)\<close>.
\<close>

fun countClick :: "ClickDoc \<Rightarrow> ClickGroup list \<Rightarrow> ClickGroup list" where
  "countClick c [] =
     [\<lparr>g_id = (case c_id_producto c of None \<Rightarrow> [] | Some p \<Rightarrow> p), g_clickCount = 1,
       g_lastClick = c_fecha c, g_nombre = c_nombre c\<rparr>]"
| "countClick c (g # gs) =
     (if g_id g = (case c_id_producto c of None \<Rightarrow> [] | Some p \<Rightarrow> p)
      then g\<lparr>g_clickCount := g_clickCount g + 1,
             g_lastClick := (if c_fecha c > g_lastClick g then c_fecha c else g_lastClick g)\<rparr> # gs
      else g # countClick c gs)"

definition getPopularProductsFromDummy ::
  "CatalogEnv \<Rightarrow> ClickDoc list \<Rightarrow> int \<Rightarrow> error + PopularEntry list" where
  "getPopularProductsFromDummy env clicksDummy limit =
     (let clickCounts = foldl (\<lambda>m c. countClick c m) [] clicksDummy in
      case getProductos env of
        Inl e \<Rightarrow> Inl e
      | Inr productosNormalizados \<Rightarrow>
          Inr (js_slice 0 limit
                 (sort_key (\<lambda>e. - int (clickCount e))
                    (map (\<lambda>g. entryOf (joinProducto productosNormalizados (g_id g)) g)
                       clickCounts))))"

text \<open>
  \<open>getPopularProducts\<close>. A \<open>$limit\<close> that is not positive is rejected by the server. The
  catalog list joined against is \<open>searchAndFilterProducts({}).productos\<close>.
\<close>

definition getPopularProducts ::
  "CatalogEnv \<Rightarrow> bool \<Rightarrow> ClickDoc list \<Rightarrow> (storeOp \<Rightarrow> bool) \<Rightarrow> int \<Rightarrow> world \<Rightarrow>
     error + PopularEntry list" where
  "getPopularProducts env USE_DUMMY_ANALYTICS clicksDummy fails limit w =
     (if USE_DUMMY_ANALYTICS \<and> fails ClickCount then Inl (StoreFailure ClickCount)
      else if USE_DUMMY_ANALYTICS \<and> length (filter validClick (clicks w)) = 0
        then getPopularProductsFromDummy env clicksDummy limit
      else if fails ClickAggregate \<or> limit \<le> 0 then Inl (StoreFailure ClickAggregate)
      else (let aggregated = topClicks (nat limit) (clicks w) in
            case searchAndFilterProducts env emptyFilterOptions of
              Inl apiError \<Rightarrow> Inr (map (entryOf Absent) aggregated)
            | Inr result \<Rightarrow>
                Inr (map (\<lambda>g. entryOf (joinProducto (productos result) (g_id g)) g) aggregated)))"

section \<open>Controllers\<close>

datatype body =
    ErrorBody string
  | SearchBody PaginatedResponse "string option"
  | SuccessBody string
  | ClicksBody "(string \<times> jv) list list"
  | TopProductsBody nat "PopularEntry list"

datatype response = Response nat body



text \<open>
  searchController.ts. The request as the handler sees it behind \<open>optionalAuthenticate\<close> and
  \<open>validateSearchParams\<close>: the sanitised query (\<open>page\<close> and \<open>pageSize\<close> already numbers), the
  owner id set by the authentication step, and the fresh identifiers of the documents the
  handler may insert.
\<close>

record SearchRequest =
  rq_busqueda :: "string option"
  rq_precio :: "string option"
  rq_categoria :: "string option"
  rq_condicion :: "string option"
  rq_ordenar :: "string option"
  rq_page :: int
  rq_pageSize :: int
  rq_userId :: "string option"
  rq_isAnonymous :: bool
  rq_sessionId :: "string option"
  rq_queryDocId :: string
  rq_historyDocId :: string

definition precioRange :: "string option \<Rightarrow> int option \<times> int option" where
  "precioRange precioParam =
     (if precioParam = Some ''hasta 5000'' then (None, Some 5000)
      else if precioParam = Some ''entre 5000 - 10000'' then (Some 5000, Some 10000)
      else if precioParam = Some ''entre 10000 - 25000'' then (Some 10000, Some 25000)
      else if precioParam = Some ''entre 25000 - 50000'' then (Some 25000, Some 50000)
      else if precioParam = Some ''entre 50000 - 100000'' then (Some 50000, Some 100000)
      else if precioParam = Some ''entre 100000 - 300000'' then (Some 100000, Some 300000)
      else if precioParam = Some ''entre 300000 - 500000'' then (Some 300000, Some 500000)
      else if precioParam = Some ''mas de 500000'' then (Some 500000, None)
      else (None, None))"

definition keepTruthy :: "string option \<Rightarrow> string option" where
  "keepTruthy s = (if truthy s then s else None)"

text \<open>The destructuring default \<open>busqueda = ''\<close>, and \<open>req.userId\<close> read as a string.\<close>

definition busquedaOf :: "SearchRequest \<Rightarrow> string" where
  "busquedaOf rq = (case rq_busqueda rq of None \<Rightarrow> [] | Some b \<Rightarrow> b)"

definition userIdOf :: "SearchRequest \<Rightarrow> string" where
  "userIdOf rq = (case rq_userId rq of None \<Rightarrow> [] | Some u \<Rightarrow> u)"


definition searchOptions :: "SearchRequest \<Rightarrow> FilterOptions" where
  "searchOptions rq =
     \<lparr>fo_busqueda = Some (busquedaOf rq),
      fo_precio_min = fst (precioRange (rq_precio rq)),
      fo_precio_max = snd (precioRange (rq_precio rq)),
      fo_categoria = rq_categoria rq, fo_condicion = rq_condicion rq,
      fo_ordenar = rq_ordenar rq,
      fo_page = Some (rq_page rq), fo_pageSize = Some (rq_pageSize rq)\<rparr>"

definition hasSearchText :: "SearchRequest \<Rightarrow> bool" where
  "hasSearchText rq = (busquedaOf rq \<noteq> [] \<and> trim (busquedaOf rq) \<noteq> [])"

definition historyData :: "SearchRequest \<Rightarrow> PaginatedResponse \<Rightarrow> SaveHistoryData" where
  "historyData rq result =
     \<lparr>d_userId = userIdOf rq, d_queryText = busquedaOf rq,
      d_filters = Some \<lparr>sf_precio = keepTruthy (rq_precio rq),
                        sf_categoria = keepTruthy (rq_categoria rq),
                        sf_condicion = keepTruthy (rq_condicion rq),
                        sf_ordenar = keepTruthy (rq_ordenar rq), sf_ordenPrecio = None\<rparr>,
      d_sortBy = rq_ordenar rq,
      d_sortDir = (if rq_ordenar rq = Some ''precio-asc'' then Some ''asc''
                   else if rq_ordenar rq = Some ''precio-desc'' then Some ''desc'' else None),
      d_page = Some (rq_page rq), d_pageSize = Some (rq_pageSize rq),
      d_results = map id_producto (productos result),
      d_isAnonymous = Some (rq_isAnonymous rq)\<rparr>"

text \<open>
  The \<open>search\<close> handler. Everything from the catalog call to \<open>res.json\<close> is inside one \<open>try\<close>;
  the \<open>catch\<close> logs the error and answers 500 (none of the errors modelled here is a
  \<open>BadRequestError\<close>, the only kind answered with 400).
\<close>

definition searchFailed :: "error \<Rightarrow> world \<Rightarrow> response \<times> world" where
  "searchFailed e w =
     (Response 500 (ErrorBody ''Error al realizar la busqueda''),
      w\<lparr>console := console w @ [LogSearchError e]\<rparr>)"

definition search ::
  "CatalogEnv \<Rightarrow> (storeOp \<Rightarrow> bool) \<Rightarrow> int \<Rightarrow> SearchRequest \<Rightarrow> world \<Rightarrow> response \<times> world" where
  "search env fails now rq w =
     (case searchAndFilterProducts env (searchOptions rq) of
        Inl e \<Rightarrow> searchFailed e w
      | Inr result \<Rightarrow>
          (case (if hasSearchText rq
                 then saveSearchQuery fails now (rq_queryDocId rq) (busquedaOf rq) w
                 else Ok () w) of
             Throw e w1 \<Rightarrow> searchFailed e w1
           | Ok u w1 \<Rightarrow>
               (if hasSearchText rq \<and> truthy (rq_userId rq) \<and> length (productos result) > 0
                then (case saveSearchHistory fails now (rq_historyDocId rq)
                             (historyData rq result) w1 of
                        Throw e w2 \<Rightarrow> searchFailed e w2
                      | Ok saved w2 \<Rightarrow>
                          (Response 200 (SearchBody result
                             (if rq_isAnonymous rq \<and> truthy (rq_sessionId rq)
                              then rq_sessionId rq else None)), w2))
                else (Response 200 (SearchBody result
                        (if rq_isAnonymous rq \<and> truthy (rq_sessionId rq)
                         then rq_sessionId rq else None)), w1))))"

text \<open>The \<open>deleteSearchHistory\<close> handler (\<open>DELETE /history/:id\<close>).\<close>

definition deleteSearchHistory_controller ::
  "(storeOp \<Rightarrow> bool) \<Rightarrow> string option \<Rightarrow> string option \<Rightarrow> world \<Rightarrow> response \<times> world" where
  "deleteSearchHistory_controller fails idParam uid w =
     (case keepTruthy idParam of
        None \<Rightarrow> (Response 400 (ErrorBody ''ID de busqueda requerido''), w)
      | Some searchId \<Rightarrow>
          (case keepTruthy uid of
             None \<Rightarrow> (Response 401 (ErrorBody ''Usuario no autenticado''), w)
           | Some caller \<Rightarrow>
               (case deleteSearchHistory fails searchId caller w of
                  Throw e w' \<Rightarrow>
                    (Response 500 (ErrorBody ''Error al eliminar busqueda del historial''),
                     w'\<lparr>console := console w' @ [LogDeleteError e]\<rparr>)
                | Ok deleted w' \<Rightarrow>
                    if \<not> deleted
                    then (Response 404 (ErrorBody ''Busqueda no encontrada o no autorizado''), w')
                    else (Response 200 (SuccessBody ''Busqueda eliminada del historial''), w'))))"

section \<open>Concrete states and requests\<close>

text \<open>
  A state with an idle session \<open>s1\<close>, a recent session \<open>s2\<close>, history and clicks of the
  anonymous owner of \<open>s1\<close> and of the signed-in owner \<open>user_001\<close>.
\<close>

definition sessionS1 :: SessionInfo where
  "sessionS1 = \<lparr>sessionId = ''s1'', createdAt = 0, lastActivity = 1000\<rparr>"

definition sessionS2 :: SessionInfo where
  "sessionS2 = \<lparr>sessionId = ''s2'', createdAt = 0, lastActivity = 50000000\<rparr>"

definition historyA :: SearchHistoryDoc where
  "historyA = \<lparr>h_id = ''h1'', userId = ''anonymous_s1'', queryText = ''laptop'',
               filters = noFilters, sortBy = None, sortDir = None, h_page = 1, h_pageSize = 20,
               requestedAt = 900, results = [''p1'']\<rparr>"

definition historyU :: SearchHistoryDoc where
  "historyU = \<lparr>h_id = ''h2'', userId = ''user_001'', queryText = ''monitor'',
               filters = noFilters, sortBy = None, sortDir = None, h_page = 1, h_pageSize = 20,
               requestedAt = 950, results = [''p2'']\<rparr>"

definition clickA :: ClickDoc where
  "clickA = \<lparr>c_id = ''c1'', c_id_producto = Some ''A'', c_nombre = ''Laptop'', c_fecha = 10,
             c_userId = Some ''anonymous_s1''\<rparr>"

definition clickU :: ClickDoc where
  "clickU = \<lparr>c_id = ''c2'', c_id_producto = Some ''B'', c_nombre = ''Monitor'', c_fecha = 20,
             c_userId = Some ''user_001''\<rparr>"

definition worldS :: world where
  "worldS = \<lparr>activeSessions = [(''s1'', sessionS1), (''s2'', sessionS2)],
             search_history = [historyA, historyU], search_queries = [],
             clicks = [clickA, clickU], console = []\<rparr>"

text \<open>The click store of session \<open>s1\<close>'s owner is unreachable.\<close>

definition clickStoreDownS1 :: "storeOp \<Rightarrow> bool" where
  "clickStoreDownS1 call = (call = ClickDeleteMany ''anonymous_s1'')"

text \<open>
  A catalog in fixture mode with \<open>n\<close> products priced \<open>0, 1000, 2000, ...\<close>; a request for
  the text \<open>laptop\<close> by the anonymous owner of session \<open>s1\<close>, the same request with a blank
  text, and environments in which one of the two appends throws.
\<close>

definition demoProduct :: "nat \<Rightarrow> ProductoNormalizado" where
  "demoProduct i =
     \<lparr>p_id = ''pub'', id_producto = replicate (Suc i) CHR ''A'', titulo = ''laptop'',
      descripcion = ''portatil'', precio = 1000 * int i, categoria = ''Electronica'',
      condicion = ''nuevo'', stock = 1, marca = ''hp'', multimedia = [], imagen = None\<rparr>"

definition demoCatalog :: "nat \<Rightarrow> CatalogEnv" where
  "demoCatalog n =
     \<lparr>USE_DUMMY_PRODUCTS = True, productosDemo = map demoProduct [0..<n],
      publicaciones = Inl [], toLowerCase = (\<lambda>s. s)\<rparr>"


definition pageOptions :: "int \<Rightarrow> int \<Rightarrow> FilterOptions" where
  "pageOptions page pageSize = emptyFilterOptions\<lparr>fo_page := Some page, fo_pageSize := Some pageSize\<rparr>"

definition laptopRequest :: SearchRequest where
  "laptopRequest =
     \<lparr>rq_busqueda = Some ''laptop'', rq_precio = None, rq_categoria = None,
      rq_condicion = None, rq_ordenar = None, rq_page = 1, rq_pageSize = 20,
      rq_userId = Some ''anonymous_s1'', rq_isAnonymous = True, rq_sessionId = Some ''s1'',
      rq_queryDocId = ''q9'', rq_historyDocId = ''h9''\<rparr>"



definition queryStoreDown :: "storeOp \<Rightarrow> bool" where
  "queryStoreDown call = (call = QueryCreate)"

definition historyStoreDown :: "storeOp \<Rightarrow> bool" where
  "historyStoreDown call = (call = HistorySave)"

definition world0 :: world where
  "world0 = \<lparr>activeSessions = [], search_history = [], search_queries = [], clicks = [],
             console = []\<rparr>"

definition laptopResult :: PaginatedResponse where
  "laptopResult =
     \<lparr>productos = [demoProduct 0],
      metadata = \<lparr>md_total = 1, md_page = 1, md_pageSize = 20, totalPages = Fin 1,
                  hasMore = False\<rparr>\<rparr>"

definition laptopCatalog :: CatalogEnv where
  "laptopCatalog =
     \<lparr>USE_DUMMY_PRODUCTS = True, productosDemo = [demoProduct 0],
      publicaciones = Inl [], toLowerCase = (\<lambda>s. s)\<rparr>"

text \<open>Five clicks: three on \<open>A\<close>, one on \<open>B\<close>, one more on \<open>A\<close>; the catalog knows only \<open>A\<close>.\<close>

definition clickOn :: "string \<Rightarrow> int \<Rightarrow> ClickDoc" where
  "clickOn pid t =
     \<lparr>c_id = ''c'', c_id_producto = Some pid, c_nombre = ''Producto '' @ pid, c_fecha = t,
      c_userId = None\<rparr>"




section \<open>Properties of the session registry\<close>

lemma startsWith_append: "startsWith (p @ s) p"
  by (simp add: startsWith_def)

lemma replaceFirst_prefix:
  "startsWith s p \<Longrightarrow> replaceFirst p rep s = rep @ drop (length p) s"
  by (cases s) (auto simp: startsWith_def)

lemma derive_replaceFirst:
  assumes "startsWith s p"
  shows "p @ replaceFirst p [] s = s"
proof -
  have "replaceFirst p [] s = drop (length p) s"
    using replaceFirst_prefix [OF assms, of "[]"] by simp
  moreover have "take (length p) s = p"
    using assms by (simp add: startsWith_def)
  ultimately show ?thesis
    using append_take_drop_id [of "length p" s] by simp
qed

lemma extract_of_derive: "extractSessionId (getAnonymousUserId sid) = Some sid"
  by (simp add: extractSessionId_def getAnonymousUserId_def isAnonymousUserId_def
      startsWith_def)

text \<open>
  C7. For every owner id \<open>u\<close> that starts with \<open>anonymous_\<close>, \<open>extractSessionId u\<close> returns a
  session id whose derived owner id is \<open>u\<close> again; for every other owner id it returns
  \<open>null\<close>.
\<close>

theorem C7_derive_extract:
  "(isAnonymousUserId u \<longrightarrow>
      (\<exists>sid. extractSessionId u = Some sid \<and> getAnonymousUserId sid = u)) \<and>
   (\<not> isAnonymousUserId u \<longrightarrow> extractSessionId u = None)"
proof (intro conjI impI)
  assume a: "isAnonymousUserId u"
  then have p: "startsWith u ''anonymous_''"
    by (simp add: isAnonymousUserId_def)
  have "''anonymous_'' @ replaceFirst ''anonymous_'' [] u = u"
    by (rule derive_replaceFirst [OF p])
  then show "\<exists>sid. extractSessionId u = Some sid \<and> getAnonymousUserId sid = u"
    using a by (simp add: extractSessionId_def getAnonymousUserId_def)
next
  assume "\<not> isAnonymousUserId u"
  then show "extractSessionId u = None"
    by (simp add: extractSessionId_def)
qed

theorem C7_derive_extract_witness:
  "isAnonymousUserId ''anonymous_session_1'' \<and>
   extractSessionId ''anonymous_session_1'' = Some ''session_1'' \<and>
   getAnonymousUserId ''session_1'' = ''anonymous_session_1'' \<and>
   \<not> isAnonymousUserId ''user_001'' \<and>
   extractSessionId ''user_001'' = None"
proof -
  have a: "isAnonymousUserId ''anonymous_session_1''"
    by (simp add: isAnonymousUserId_def startsWith_def)
  have b: "\<not> isAnonymousUserId ''user_001''"
    by (simp add: isAnonymousUserId_def startsWith_def)
  from C7_derive_extract [of "''anonymous_session_1''"] a
  obtain sid where s: "extractSessionId ''anonymous_session_1'' = Some sid"
    and g: "getAnonymousUserId sid = ''anonymous_session_1''" by blast
  from g have "sid = ''session_1''" by (simp add: getAnonymousUserId_def)
  with s g a b C7_derive_extract [of "''user_001''"] show ?thesis by simp
qed

subsection \<open>Registration\<close>

lemma update_absent:
  "map_of al k = None \<Longrightarrow> AList.update k v al = al @ [(k, v)]"
  by (induction al) (auto split: if_splits)

lemma registerSession_distinct:
  "distinct (map fst (activeSessions w)) \<Longrightarrow>
   distinct (map fst (activeSessions (registerSession now sid w)))"
  by (simp add: registerSession_def distinct_update split: option.splits)

text \<open>
  C10. When \<open>sid\<close> is registered, \<open>registerSession\<close> replaces its entry by the same entry with
  \<open>lastActivity\<close> set to the current time (so \<open>sessionId\<close> and \<open>createdAt\<close> stay), keeps the
  keys and their order and logs nothing; when \<open>sid\<close> is not registered, it appends the entry
  \<open>(sid, createdAt = lastActivity = now)\<close>. In both cases every other entry and the three
  collections are unchanged.
\<close>

theorem C10_registerSession_frame:
  "(\<forall>s. map_of (activeSessions w) sid = Some s \<longrightarrow>
      map_of (activeSessions (registerSession now sid w)) sid = Some (s\<lparr>lastActivity := now\<rparr>) \<and>
      map fst (activeSessions (registerSession now sid w)) = map fst (activeSessions w) \<and>
      console (registerSession now sid w) = console w) \<and>
   (map_of (activeSessions w) sid = None \<longrightarrow>
      map_of (activeSessions (registerSession now sid w)) sid =
        Some \<lparr>sessionId = sid, createdAt = now, lastActivity = now\<rparr> \<and>
      activeSessions (registerSession now sid w) =
        activeSessions w @ [(sid, \<lparr>sessionId = sid, createdAt = now, lastActivity = now\<rparr>)]) \<and>
   (\<forall>k. k \<noteq> sid \<longrightarrow>
      map_of (activeSessions (registerSession now sid w)) k = map_of (activeSessions w) k) \<and>
   search_history (registerSession now sid w) = search_history w \<and>
   search_queries (registerSession now sid w) = search_queries w \<and>
   clicks (registerSession now sid w) = clicks w"
proof (intro conjI allI impI)
  fix s assume "map_of (activeSessions w) sid = Some s"
  then show "map_of (activeSessions (registerSession now sid w)) sid = Some (s\<lparr>lastActivity := now\<rparr>)"
    by (simp add: registerSession_def update_conv')
next
  fix s assume a: "map_of (activeSessions w) sid = Some s"
  then have "sid \<in> fst ` set (activeSessions w)"
    by (metis map_of_SomeD fst_conv image_eqI)
  with a show "map fst (activeSessions (registerSession now sid w)) = map fst (activeSessions w)"
    by (simp add: registerSession_def update_keys)
next
  fix s assume "map_of (activeSessions w) sid = Some s"
  then show "console (registerSession now sid w) = console w"
    by (simp add: registerSession_def)
next
  assume "map_of (activeSessions w) sid = None"
  then show "map_of (activeSessions (registerSession now sid w)) sid =
        Some \<lparr>sessionId = sid, createdAt = now, lastActivity = now\<rparr>"
    by (simp add: registerSession_def update_conv')
next
  assume "map_of (activeSessions w) sid = None"
  then show "activeSessions (registerSession now sid w) =
        activeSessions w @ [(sid, \<lparr>sessionId = sid, createdAt = now, lastActivity = now\<rparr>)]"
    by (simp add: registerSession_def update_absent)
next
  fix k assume "k \<noteq> sid"
  then show "map_of (activeSessions (registerSession now sid w)) k = map_of (activeSessions w) k"
    by (simp add: registerSession_def update_conv' split: option.splits)
qed (simp_all add: registerSession_def split: option.splits)

theorem C10_registerSession_frame_witness:
  "map_of (activeSessions worldS) ''s1'' = Some sessionS1 \<and>
   map_of (activeSessions (registerSession 7000 ''s1'' worldS)) ''s1'' =
     Some \<lparr>sessionId = ''s1'', createdAt = 0, lastActivity = 7000\<rparr> \<and>
   map_of (activeSessions (registerSession 7000 ''s1'' worldS)) ''s2'' = Some sessionS2 \<and>
   map fst (activeSessions (registerSession 7000 ''s1'' worldS)) = [''s1'', ''s2''] \<and>
   map_of (activeSessions worldS) ''s3'' = None \<and>
   activeSessions (registerSession 7000 ''s3'' worldS) =
     [(''s1'', sessionS1), (''s2'', sessionS2),
      (''s3'', \<lparr>sessionId = ''s3'', createdAt = 7000, lastActivity = 7000\<rparr>)]"
proof -
  have a: "map_of (activeSessions worldS) ''s1'' = Some sessionS1"
    by (simp add: worldS_def)
  have b: "map_of (activeSessions worldS) ''s3'' = None"
    by (simp add: worldS_def)
  have c: "map_of (activeSessions worldS) ''s2'' = Some sessionS2"
    by (simp add: worldS_def)
  have k: "map fst (activeSessions worldS) = [''s1'', ''s2'']"
    by (simp add: worldS_def)
  have n: "''s2'' \<noteq> ''s1''" by simp
  note t1 = C10_registerSession_frame [of worldS "''s1''" 7000]
  note t3 = C10_registerSession_frame [of worldS "''s3''" 7000]
  have 1: "map_of (activeSessions (registerSession 7000 ''s1'' worldS)) ''s1'' =
     Some \<lparr>sessionId = ''s1'', createdAt = 0, lastActivity = 7000\<rparr>"
    using t1 a by (simp add: sessionS1_def)
  have 2: "map_of (activeSessions (registerSession 7000 ''s1'' worldS)) ''s2'' = Some sessionS2"
    using t1 n c by simp
  have 3: "map fst (activeSessions (registerSession 7000 ''s1'' worldS)) = [''s1'', ''s2'']"
    using t1 a k by simp
  have 4: "activeSessions (registerSession 7000 ''s3'' worldS) =
     [(''s1'', sessionS1), (''s2'', sessionS2),
      (''s3'', \<lparr>sessionId = ''s3'', createdAt = 7000, lastActivity = 7000\<rparr>)]"
    using t3 b by (simp add: worldS_def)
  from a b 1 2 3 4 show ?thesis by simp
qed

subsection \<open>Activity, expiry and the sweep\<close>

lemma cleanupSessionHistory_eq:
  "cleanupSessionHistory fails sid w = Ok () (afterCleanup fails sid w)"
  by (simp add: cleanupSessionHistory_def cleanupSessionHistory_try_def
      SearchHistory_deleteMany_def Click_deleteMany_def afterCleanup_def)

lemma afterCleanup_sessions:
  "activeSessions (afterCleanup fails sid w) =
     (if cascadeFails fails sid then activeSessions w else AList.delete sid (activeSessions w))"
  by (simp add: afterCleanup_def cascadeFails_def)

lemma cleanupEach_eq:
  "cleanupEach fails sids w = Ok () (foldl (\<lambda>w sid. afterCleanup fails sid w) w sids)"
  by (induction sids arbitrary: w) (simp_all add: cleanupSessionHistory_eq)

lemma foldl_afterCleanup_sessions:
  "activeSessions (foldl (\<lambda>w sid. afterCleanup fails sid w) w sids) =
     filter (\<lambda>(k, s). k \<notin> set (filter (\<lambda>sid. \<not> cascadeFails fails sid) sids)) (activeSessions w)"
proof (induction sids arbitrary: w)
  case Nil
  then show ?case by simp
next
  case (Cons sid sids)
  show ?case
    by (simp add: Cons.IH afterCleanup_sessions AList.delete_eq case_prod_unfold)
       (auto intro: filter_cong)
qed

lemma sweep_eq:
  "\<exists>w'. cleanupExpiredSessions fails now w = Ok () w' \<and>
     activeSessions w' =
       filter (\<lambda>(k, s). k \<notin> set (filter (\<lambda>sid. \<not> cascadeFails fails sid)
                                   (expiredSessions now (activeSessions w))))
              (activeSessions w)"
  by (simp add: cleanupExpiredSessions_def Let_def cleanupEach_eq foldl_afterCleanup_sessions)




lemma sweep_keeps_failed:
  assumes "map_of m sid = Some s" and "cascadeFails fails sid"
  shows "map_of (filter (\<lambda>(k, s). k \<notin> set (filter (\<lambda>sid. \<not> cascadeFails fails sid) sids)) m) sid
           = Some s"
  using assms by (intro map_of_filter_in) auto

lemma expired_later:
  assumes "map_of m sid = Some s" and "now - lastActivity s \<ge> SESSION_TIMEOUT" and "now \<le> now'"
  shows "sid \<in> set (expiredSessions now' m)"
proof -
  have "(sid, s) \<in> set m"
    using assms(1) by (rule map_of_SomeD)
  moreover have "now' - lastActivity s \<ge> SESSION_TIMEOUT"
    using assms(2,3) by simp
  ultimately show ?thesis
    by (force simp: expiredSessions_def)
qed



text \<open>
  C8. \<open>cleanupSessionHistory\<close> always resolves. When the deletion of the session's history
  or of its clicks throws, the registry is left as it was and the error is logged; the
  registry changes only when neither call threw, and then both collections have lost the
  records of the session's anonymous owner. A sweep always resolves too, and a registered
  session whose cascade throws is still registered, unchanged, after the sweep: if it was due
  at this scan it is collected again by every later scan.
\<close>

theorem C8_cascade_failure:
  "(\<exists>w'. cleanupSessionHistory fails sid w = Ok () w' \<and>
      (fails (HistoryDeleteMany (getAnonymousUserId sid)) \<or>
       fails (ClickDeleteMany (getAnonymousUserId sid)) \<longrightarrow>
         activeSessions w' = activeSessions w \<and>
         (\<exists>e. console w' = console w @ [LogCleanupError sid e])) \<and>
      (activeSessions w' \<noteq> activeSessions w \<longrightarrow>
         \<not> fails (HistoryDeleteMany (getAnonymousUserId sid)) \<and>
         \<not> fails (ClickDeleteMany (getAnonymousUserId sid)) \<and>
         search_history w' = filter (\<lambda>d. userId d \<noteq> getAnonymousUserId sid) (search_history w) \<and>
         clicks w' = filter (\<lambda>d. c_userId d \<noteq> Some (getAnonymousUserId sid)) (clicks w))) \<and>
   (\<exists>w'. cleanupExpiredSessions fails now w = Ok () w' \<and>
      (\<forall>k s. map_of (activeSessions w) k = Some s \<and>
             (fails (HistoryDeleteMany (getAnonymousUserId k)) \<or>
              fails (ClickDeleteMany (getAnonymousUserId k))) \<longrightarrow>
             map_of (activeSessions w') k = Some s \<and>
             (\<forall>later. now - lastActivity s \<ge> 12 * 60 * 60 * 1000 \<and> now \<le> later \<longrightarrow>
                 k \<in> set (expiredSessions later (activeSessions w')))))"
proof (intro conjI)
  show "\<exists>w'. cleanupSessionHistory fails sid w = Ok () w' \<and>
      (fails (HistoryDeleteMany (getAnonymousUserId sid)) \<or>
       fails (ClickDeleteMany (getAnonymousUserId sid)) \<longrightarrow>
         activeSessions w' = activeSessions w \<and>
         (\<exists>e. console w' = console w @ [LogCleanupError sid e])) \<and>
      (activeSessions w' \<noteq> activeSessions w \<longrightarrow>
         \<not> fails (HistoryDeleteMany (getAnonymousUserId sid)) \<and>
         \<not> fails (ClickDeleteMany (getAnonymousUserId sid)) \<and>
         search_history w' = filter (\<lambda>d. userId d \<noteq> getAnonymousUserId sid) (search_history w) \<and>
         clicks w' = filter (\<lambda>d. c_userId d \<noteq> Some (getAnonymousUserId sid)) (clicks w))"
    by (simp add: cleanupSessionHistory_eq afterCleanup_def getAnonymousUserId_def)
next
  obtain w' where r: "cleanupExpiredSessions fails now w = Ok () w'"
    and a: "activeSessions w' =
       filter (\<lambda>(k, s). k \<notin> set (filter (\<lambda>sid. \<not> cascadeFails fails sid)
                                   (expiredSessions now (activeSessions w))))
              (activeSessions w)"
    using sweep_eq by blast
  have "map_of (activeSessions w') k = Some s \<and>
        (\<forall>later. now - lastActivity s \<ge> 12 * 60 * 60 * 1000 \<and> now \<le> later \<longrightarrow>
                 k \<in> set (expiredSessions later (activeSessions w')))"
    if h: "map_of (activeSessions w) k = Some s \<and>
             (fails (HistoryDeleteMany (getAnonymousUserId k)) \<or>
              fails (ClickDeleteMany (getAnonymousUserId k)))" for k s
  proof -
    have cf: "cascadeFails fails k"
      using h by (simp add: cascadeFails_def getAnonymousUserId_def)
    have m: "map_of (activeSessions w') k = Some s"
      unfolding a using h cf by (intro sweep_keeps_failed) simp_all
    show ?thesis
      using m expired_later [OF m, of now] by (simp add: SESSION_TIMEOUT_def)
  qed
  with r show "\<exists>w'. cleanupExpiredSessions fails now w = Ok () w' \<and>
      (\<forall>k s. map_of (activeSessions w) k = Some s \<and>
             (fails (HistoryDeleteMany (getAnonymousUserId k)) \<or>
              fails (ClickDeleteMany (getAnonymousUserId k))) \<longrightarrow>
             map_of (activeSessions w') k = Some s \<and>
             (\<forall>later. now - lastActivity s \<ge> 12 * 60 * 60 * 1000 \<and> now \<le> later \<longrightarrow>
                 k \<in> set (expiredSessions later (activeSessions w'))))"
    by blast
qed

theorem C8_cascade_failure_witness:
  "clickStoreDownS1 (ClickDeleteMany (getAnonymousUserId ''s1'')) \<and>
   map_of (activeSessions worldS) ''s1'' = Some sessionS1 \<and>
   60000000 - lastActivity sessionS1 \<ge> 12 * 60 * 60 * 1000 \<and>
   (\<exists>w'. cleanupSessionHistory clickStoreDownS1 ''s1'' worldS = Ok () w' \<and>
         activeSessions w' = activeSessions worldS \<and>
         console w' = [LogCleanupError ''s1'' (StoreFailure (ClickDeleteMany ''anonymous_s1''))]) \<and>
   (\<exists>w'. cleanupExpiredSessions clickStoreDownS1 60000000 worldS = Ok () w' \<and>
         map_of (activeSessions w') ''s1'' = Some sessionS1 \<and>
         ''s1'' \<in> set (expiredSessions 60300000 (activeSessions w'))) \<and>
   (\<exists>w'. cleanupSessionHistory noFaults ''s1'' worldS = Ok () w' \<and>
         activeSessions w' \<noteq> activeSessions worldS \<and>
         search_history w' = [historyU] \<and> clicks w' = [clickU])"
proof -
  have f: "clickStoreDownS1 (ClickDeleteMany (getAnonymousUserId ''s1''))"
    by (simp add: clickStoreDownS1_def getAnonymousUserId_def)
  have m: "map_of (activeSessions worldS) ''s1'' = Some sessionS1"
    by (simp add: worldS_def)
  have t: "60000000 - lastActivity sessionS1 \<ge> 12 * 60 * 60 * 1000"
    by (simp add: sessionS1_def)
  note bad = C8_cascade_failure [of clickStoreDownS1 "''s1''" worldS 60000000]
  note good = C8_cascade_failure [of noFaults "''s1''" worldS 60000000]
  from bad f obtain w1 where 1: "cleanupSessionHistory clickStoreDownS1 ''s1'' worldS = Ok () w1"
    and 2: "activeSessions w1 = activeSessions worldS"
    and 3: "\<exists>e. console w1 = console worldS @ [LogCleanupError ''s1'' e]"
    by blast
  have 4: "console w1 = [LogCleanupError ''s1'' (StoreFailure (ClickDeleteMany ''anonymous_s1''))]"
  proof -
    from 1 have "w1 = afterCleanup clickStoreDownS1 ''s1'' worldS"
      by (simp add: cleanupSessionHistory_eq)
    then show ?thesis
      by (simp add: afterCleanup_def clickStoreDownS1_def worldS_def)
  qed
  from bad obtain w2 where 5: "cleanupExpiredSessions clickStoreDownS1 60000000 worldS = Ok () w2"
    and 6: "\<forall>k s. map_of (activeSessions worldS) k = Some s \<and>
             (clickStoreDownS1 (HistoryDeleteMany (getAnonymousUserId k)) \<or>
              clickStoreDownS1 (ClickDeleteMany (getAnonymousUserId k))) \<longrightarrow>
             map_of (activeSessions w2) k = Some s \<and>
             (\<forall>later. 60000000 - lastActivity s \<ge> 12 * 60 * 60 * 1000 \<and> 60000000 \<le> later \<longrightarrow>
                 k \<in> set (expiredSessions later (activeSessions w2)))"
    by blast
  from 6 m f have 7: "map_of (activeSessions w2) ''s1'' = Some sessionS1"
    and 8: "\<forall>later. 60000000 - lastActivity sessionS1 \<ge> 12 * 60 * 60 * 1000 \<and> 60000000 \<le> later \<longrightarrow>
                 ''s1'' \<in> set (expiredSessions later (activeSessions w2))"
    by blast+
  from 8 t have 9: "''s1'' \<in> set (expiredSessions 60300000 (activeSessions w2))"
    by simp
  from good obtain w3 where 10: "cleanupSessionHistory noFaults ''s1'' worldS = Ok () w3"
    and 11: "activeSessions w3 \<noteq> activeSessions worldS \<longrightarrow>
         search_history w3 = filter (\<lambda>d. userId d \<noteq> getAnonymousUserId ''s1'') (search_history worldS) \<and>
         clicks w3 = filter (\<lambda>d. c_userId d \<noteq> Some (getAnonymousUserId ''s1'')) (clicks worldS)"
    by blast
  have 12: "activeSessions w3 \<noteq> activeSessions worldS"
  proof -
    from 10 have "w3 = afterCleanup noFaults ''s1'' worldS"
      by (simp add: cleanupSessionHistory_eq)
    then show ?thesis
      by (simp add: afterCleanup_def noFaults_def worldS_def)
  qed
  from 11 12 have 13: "search_history w3 = [historyU] \<and> clicks w3 = [clickU]"
    by (simp add: worldS_def getAnonymousUserId_def historyA_def historyU_def clickA_def clickU_def)
  from f m t 1 2 4 5 7 9 10 12 13 show ?thesis by blast
qed

section \<open>Deleting a history record\<close>

lemma deleteOne_count: "fst (deleteOne P xs) > 0 \<longleftrightarrow> (\<exists>x\<in>set xs. P x)"
  by (induction xs) auto

lemma deleteOne_no_match: "(\<forall>x\<in>set xs. \<not> P x) \<Longrightarrow> deleteOne P xs = (0, xs)"
  by (induction xs) (auto simp: prod_eq_iff)

lemma deleteOne_unique:
  assumes "distinct (map f xs)" and "\<And>x. P x \<Longrightarrow> f x = i"
  shows "snd (deleteOne P xs) = filter (\<lambda>x. \<not> P x) xs"
  using assms(1)
proof (induction xs)
  case Nil
  then show ?case by simp
next
  case (Cons x xs)
  show ?case
  proof (cases "P x")
    case True
    have "\<not> P y" if "y \<in> set xs" for y
    proof
      assume "P y"
      then have "f y = f x" using True assms(2) by simp
      with that Cons.prems show False by (auto simp: image_iff)
    qed
    then have "filter (\<lambda>x. \<not> P x) xs = xs"
      by (simp add: filter_id_conv)
    with True show ?thesis by simp
  next
    case False
    with Cons show ?thesis by simp
  qed
qed

text \<open>
  C9. In a history collection (ids distinct) with a reachable store: when the record with
  the given id belongs to another owner, \<open>deleteSearchHistory\<close> returns \<open>false\<close> and leaves
  the whole state as it was, so the record stays for its owner, and the handler answers 404.
  The call returns \<open>true\<close> exactly when a record has that id and the caller as owner, and
  the collection afterwards is the old one without that record.
\<close>

theorem C9_delete_ownership:
  assumes "distinct (map h_id (search_history w))"
    and "\<not> fails (HistoryDeleteOne searchId caller)"
  shows "(\<forall>r\<in>set (search_history w). h_id r = searchId \<and> userId r \<noteq> caller \<longrightarrow>
            deleteSearchHistory fails searchId caller w = Ok False w \<and>
            (searchId \<noteq> [] \<and> caller \<noteq> [] \<longrightarrow>
               deleteSearchHistory_controller fails (Some searchId) (Some caller) w =
                 (Response 404 (ErrorBody ''Busqueda no encontrada o no autorizado''), w))) \<and>
         (\<exists>deleted w'. deleteSearchHistory fails searchId caller w = Ok deleted w' \<and>
            (deleted \<longleftrightarrow> (\<exists>d\<in>set (search_history w). h_id d = searchId \<and> userId d = caller)) \<and>
            search_history w' =
              filter (\<lambda>d. \<not> (h_id d = searchId \<and> userId d = caller)) (search_history w))"
proof (intro conjI ballI impI)
  fix r assume r: "r \<in> set (search_history w)" and o: "h_id r = searchId \<and> userId r \<noteq> caller"
  have none: "\<forall>d\<in>set (search_history w). \<not> (h_id d = searchId \<and> userId d = caller)"
  proof (intro ballI notI)
    fix d assume d: "d \<in> set (search_history w)" and m: "h_id d = searchId \<and> userId d = caller"
    from assms(1) r d o m have "d = r"
      by (metis distinct_map inj_onD)
    with o m show False by simp
  qed
  show del: "deleteSearchHistory fails searchId caller w = Ok False w"
    using assms(2) deleteOne_no_match [OF none]
    by (simp add: deleteSearchHistory_def)
  show "deleteSearchHistory_controller fails (Some searchId) (Some caller) w =
          (Response 404 (ErrorBody ''Busqueda no encontrada o no autorizado''), w)"
    if "searchId \<noteq> [] \<and> caller \<noteq> []"
    using that del by (simp add: deleteSearchHistory_controller_def keepTruthy_def truthy_def)
next
  show "\<exists>deleted w'. deleteSearchHistory fails searchId caller w = Ok deleted w' \<and>
            (deleted \<longleftrightarrow> (\<exists>d\<in>set (search_history w). h_id d = searchId \<and> userId d = caller)) \<and>
            search_history w' =
              filter (\<lambda>d. \<not> (h_id d = searchId \<and> userId d = caller)) (search_history w)"
    using assms(2) deleteOne_unique [OF assms(1), of "\<lambda>d. h_id d = searchId \<and> userId d = caller" searchId]
    by (simp add: deleteSearchHistory_def Let_def deleteOne_count)
qed

theorem C9_delete_ownership_witness:
  "distinct (map h_id (search_history worldS)) \<and>
   \<not> noFaults (HistoryDeleteOne ''h1'' ''user_001'') \<and>
   historyA \<in> set (search_history worldS) \<and> h_id historyA = ''h1'' \<and>
   userId historyA \<noteq> ''user_001'' \<and>
   deleteSearchHistory noFaults ''h1'' ''user_001'' worldS = Ok False worldS \<and>
   deleteSearchHistory_controller noFaults (Some ''h1'') (Some ''user_001'') worldS =
     (Response 404 (ErrorBody ''Busqueda no encontrada o no autorizado''), worldS) \<and>
   (\<exists>w'. deleteSearchHistory noFaults ''h1'' ''anonymous_s1'' worldS = Ok True w' \<and>
         search_history w' = [historyU])"
proof -
  have d: "distinct (map h_id (search_history worldS))"
    by (simp add: worldS_def historyA_def historyU_def)
  have f1: "\<not> noFaults (HistoryDeleteOne ''h1'' ''user_001'')"
    and f2: "\<not> noFaults (HistoryDeleteOne ''h1'' ''anonymous_s1'')"
    by (simp_all add: noFaults_def)
  have r: "historyA \<in> set (search_history worldS)"
    by (simp add: worldS_def)
  have o: "h_id historyA = ''h1'' \<and> userId historyA \<noteq> ''user_001''"
    by (simp add: historyA_def)
  note other = C9_delete_ownership
    [where w = worldS and fails = noFaults and searchId = "''h1''" and caller = "''user_001''",
     OF d f1]
  note owner = C9_delete_ownership
    [where w = worldS and fails = noFaults and searchId = "''h1''" and caller = "''anonymous_s1''",
     OF d f2]
  from other r o have 1: "deleteSearchHistory noFaults ''h1'' ''user_001'' worldS = Ok False worldS"
    and 2: "deleteSearchHistory_controller noFaults (Some ''h1'') (Some ''user_001'') worldS =
     (Response 404 (ErrorBody ''Busqueda no encontrada o no autorizado''), worldS)"
    by auto
  from owner obtain deleted w' where
    3: "deleteSearchHistory noFaults ''h1'' ''anonymous_s1'' worldS = Ok deleted w'"
    and 4: "deleted \<longleftrightarrow> (\<exists>d\<in>set (search_history worldS). h_id d = ''h1'' \<and> userId d = ''anonymous_s1'')"
    and 5: "search_history w' =
              filter (\<lambda>d. \<not> (h_id d = ''h1'' \<and> userId d = ''anonymous_s1'')) (search_history worldS)"
    by blast
  from 4 have 6: deleted
    by (simp add: worldS_def historyA_def)
  from 5 have 7: "search_history w' = [historyU]"
    by (simp add: worldS_def historyA_def historyU_def)
  from d f1 r o 1 2 3 6 7 show ?thesis by auto
qed

section \<open>Pagination\<close>

lemma js_slice_window:
  assumes "0 \<le> s" and "s \<le> e"
  shows "js_slice s e xs = take (nat (e - s)) (drop (nat s) xs)"
proof (cases "s \<le> int (length xs)")
  case False
  then have "length xs \<le> nat s" by linarith
  then have "drop (nat s) xs = []" by simp
  moreover have "min s (int (length xs)) = int (length xs)" "min e (int (length xs)) = int (length xs)"
    using False assms by simp_all
  ultimately show ?thesis
    using assms by (simp add: js_slice_def Let_def)
next
  case True
  then have k: "min s (int (length xs)) = s" by simp
  show ?thesis
  proof (cases "e \<le> int (length xs)")
    case True
    then show ?thesis
      using assms k by (simp add: js_slice_def Let_def)
  next
    case False
    then have "min e (int (length xs)) = int (length xs)" by simp
    moreover have "length (drop (nat s) xs) \<le> nat (e - s)" "length (drop (nat s) xs) \<le> nat (int (length xs) - s)"
      using False assms by simp_all
    ultimately show ?thesis
      using assms k by (simp add: js_slice_def Let_def)
  qed
qed

lemma ceil_rat_real:
  "\<lceil>(of_nat a :: rat) / of_int b\<rceil> = \<lceil>real a / real_of_int b\<rceil>"
proof -
  have "\<lceil>(of_int (int a) :: rat) / of_int b\<rceil> = - (- int a div b)"
    by (rule ceiling_divide_eq_div)
  moreover have "\<lceil>(of_int (int a) :: real) / of_int b\<rceil> = - (- int a div b)"
    by (rule ceiling_divide_eq_div)
  ultimately show ?thesis by simp
qed

lemma paginate_window:
  assumes "1 \<le> page" and "1 \<le> pageSize"
  shows "paginate page pageSize fl =
           \<lparr>productos = take (nat pageSize) (drop (nat ((page - 1) * pageSize)) fl),
            metadata = \<lparr>md_total = length fl, md_page = page, md_pageSize = pageSize,
                        totalPages = Fin \<lceil>real (length fl) / real_of_int pageSize\<rceil>,
                        hasMore = (page < \<lceil>real (length fl) / real_of_int pageSize\<rceil>)\<rparr>\<rparr>"
proof -
  have s: "0 \<le> (page - 1) * pageSize" using assms by simp
  have e: "(page - 1) * pageSize \<le> (page - 1) * pageSize + pageSize" using assms by simp
  have "js_slice ((page - 1) * pageSize) ((page - 1) * pageSize + pageSize) fl =
          take (nat pageSize) (drop (nat ((page - 1) * pageSize)) fl)"
    using js_slice_window [OF s e, of fl] by simp
  moreover have "Math_ceil_div (length fl) pageSize = Fin \<lceil>real (length fl) / real_of_int pageSize\<rceil>"
    using assms by (simp add: Math_ceil_div_def ceil_rat_real)
  ultimately show ?thesis
    by (simp add: paginate_def Let_def js_less_def)
qed

text \<open>
  C4. When the catalog answers, for a page number of at least 1 and a page size of at least
  1 (the values given, or the defaults 1 and 20), \<open>searchAndFilterProducts\<close> returns the
  elements of the filtered and sorted list from index \<open>(page - 1) * pageSize\<close> up to, not
  including, \<open>page * pageSize\<close>, with \<open>total\<close> the length of that list, \<open>totalPages\<close> the
  ceiling of \<open>total / pageSize\<close> and \<open>hasMore\<close> the comparison \<open>page < totalPages\<close>.
\<close>

theorem C4_pagination:
  assumes "fetchTodosProductos env = Inr todos"
    and "page = (case fo_page fo of None \<Rightarrow> 1 | Some p \<Rightarrow> p)"
    and "pageSize = (case fo_pageSize fo of None \<Rightarrow> 20 | Some n \<Rightarrow> n)"
    and "1 \<le> page" and "1 \<le> pageSize"
  shows "\<exists>r. searchAndFilterProducts env fo = Inr r \<and>
           productos r =
             take (nat pageSize) (drop (nat ((page - 1) * pageSize))
               (applyOrdenar (fo_ordenar fo) (applyFilters env fo todos))) \<and>
           md_total (metadata r) =
             length (applyOrdenar (fo_ordenar fo) (applyFilters env fo todos)) \<and>
           totalPages (metadata r) =
             Fin \<lceil>real (length (applyOrdenar (fo_ordenar fo) (applyFilters env fo todos)))
                   / real_of_int pageSize\<rceil> \<and>
           hasMore (metadata r) =
             (page < \<lceil>real (length (applyOrdenar (fo_ordenar fo) (applyFilters env fo todos)))
                       / real_of_int pageSize\<rceil>) \<and>
           md_page (metadata r) = page \<and> md_pageSize (metadata r) = pageSize"
  using assms(1) paginate_window [OF assms(4,5)]
  by (simp add: searchAndFilterProducts_def assms(2,3) [symmetric])

lemma demo_unfiltered:
  "applyOrdenar (fo_ordenar (pageOptions p n))
     (applyFilters (demoCatalog k) (pageOptions p n) todos) = todos"
  by (simp add: applyOrdenar_def applyFilters_def pageOptions_def emptyFilterOptions_def truthy_def)

theorem C4_pagination_witness:
  "fetchTodosProductos (demoCatalog 25) = Inr (map demoProduct [0..<25]) \<and>
   (1::int) \<le> 1 \<and> (1::int) \<le> 3 \<and> (1::int) \<le> 10 \<and>
   (\<exists>r. searchAndFilterProducts (demoCatalog 25) (pageOptions 1 10) = Inr r \<and>
        length (productos r) = 10 \<and> md_total (metadata r) = 25 \<and>
        totalPages (metadata r) = Fin 3 \<and> hasMore (metadata r)) \<and>
   (\<exists>r. searchAndFilterProducts (demoCatalog 25) (pageOptions 3 10) = Inr r \<and>
        length (productos r) = 5 \<and> md_total (metadata r) = 25 \<and>
        totalPages (metadata r) = Fin 3 \<and> \<not> hasMore (metadata r))"
proof -
  have f: "fetchTodosProductos (demoCatalog 25) = Inr (map demoProduct [0..<25])"
    by (simp add: fetchTodosProductos_def demoCatalog_def)
  have p1: "(1::int) = (case fo_page (pageOptions 1 10) of None \<Rightarrow> 1 | Some p \<Rightarrow> p)"
    and p3: "(3::int) = (case fo_page (pageOptions 3 10) of None \<Rightarrow> 1 | Some p \<Rightarrow> p)"
    and n1: "(10::int) = (case fo_pageSize (pageOptions 1 10) of None \<Rightarrow> 20 | Some n \<Rightarrow> n)"
    and n3: "(10::int) = (case fo_pageSize (pageOptions 3 10) of None \<Rightarrow> 20 | Some n \<Rightarrow> n)"
    by (simp_all add: pageOptions_def)
  have a: "(1::int) \<le> 1" and b: "(1::int) \<le> 3" and c: "(1::int) \<le> 10"
    by simp_all
  from C4_pagination [OF f p1 n1 a c]
  have 1: "\<exists>r. searchAndFilterProducts (demoCatalog 25) (pageOptions 1 10) = Inr r \<and>
        length (productos r) = 10 \<and> md_total (metadata r) = 25 \<and>
        totalPages (metadata r) = Fin 3 \<and> hasMore (metadata r)"
    by (auto simp: demo_unfiltered)
  from C4_pagination [OF f p3 n3 b c]
  have 3: "\<exists>r. searchAndFilterProducts (demoCatalog 25) (pageOptions 3 10) = Inr r \<and>
        length (productos r) = 5 \<and> md_total (metadata r) = 25 \<and>
        totalPages (metadata r) = Fin 3 \<and> \<not> hasMore (metadata r)"
    by (auto simp: demo_unfiltered)
  from f a b c 1 3 show ?thesis by blast
qed

text \<open>
  The claim C4 as stated, for every page size, fails: with 25 products, page 1 and page size
  \<open>-5\<close> (a value \<open>GET /products/all?pageSize=-5\<close> passes on) the end index is \<open>-5\<close>, which
  \<open>slice\<close> counts from the end of the list, so 20 products are returned where the window
  from 0 up to \<open>-5\<close> has none.
\<close>

theorem C4_counterexample:
  "searchAndFilterProducts (demoCatalog 25) (pageOptions 1 (- 5)) =
     Inr (paginate 1 (- 5) (map demoProduct [0..<25])) \<and>
   length (productos (paginate 1 (- 5) (map demoProduct [0..<25]))) = 20 \<and>
   md_total (metadata (paginate 1 (- 5) (map demoProduct [0..<25]))) = 25 \<and>
   totalPages (metadata (paginate 1 (- 5) (map demoProduct [0..<25]))) = Fin (- 5) \<and>
   \<not> hasMore (metadata (paginate 1 (- 5) (map demoProduct [0..<25])))"
proof -
  have f: "fetchTodosProductos (demoCatalog 25) = Inr (map demoProduct [0..<25])"
    by (simp add: fetchTodosProductos_def demoCatalog_def)
  have o: "fo_page (pageOptions 1 (- 5)) = Some 1" "fo_pageSize (pageOptions 1 (- 5)) = Some (- 5)"
    by (simp_all add: pageOptions_def)
  have s: "searchAndFilterProducts (demoCatalog 25) (pageOptions 1 (- 5)) =
             Inr (paginate 1 (- 5) (map demoProduct [0..<25]))"
    by (simp add: searchAndFilterProducts_def f o demo_unfiltered)
  have 1: "length (productos (paginate 1 (- 5) (map demoProduct [0..<25]))) = 20"
    by (simp add: paginate_def js_slice_def Let_def)
  have 2: "md_total (metadata (paginate 1 (- 5) (map demoProduct [0..<25]))) = 25"
    by (simp add: paginate_def Let_def)
  have 3: "totalPages (metadata (paginate 1 (- 5) (map demoProduct [0..<25]))) = Fin (- 5)"
    by (simp add: paginate_def Math_ceil_div_def Let_def)
  have 4: "\<not> hasMore (metadata (paginate 1 (- 5) (map demoProduct [0..<25])))"
    by (simp add: paginate_def Math_ceil_div_def js_less_def Let_def)
  from s 1 2 3 4 show ?thesis by simp
qed

section \<open>The search handler and its records\<close>

lemma trim_Nil [simp]: "trim [] = []"
  by (simp add: trim_def)

lemma hasSearchText_trim: "hasSearchText rq \<longleftrightarrow> trim (busquedaOf rq) \<noteq> []"
  by (auto simp: hasSearchText_def)

lemma saveSearchQuery_text:
  "trim text \<noteq> [] \<Longrightarrow>
   saveSearchQuery fails now newId text w =
     (if fails QueryCreate then Throw (StoreFailure QueryCreate) w
      else Ok () (w\<lparr>search_queries := search_queries w @
                      [\<lparr>q_id = newId, valor_busqueda = trim text, q_fecha = now\<rparr>],
                    console := console w @ [LogQuerySaved text]\<rparr>))"
  by (auto simp: saveSearchQuery_def)

lemma truthy_userIdOf: "truthy (rq_userId rq) \<Longrightarrow> userIdOf rq \<noteq> []"
  by (simp add: truthy_def userIdOf_def split: option.splits)



lemma search_query_fails:
  assumes "searchAndFilterProducts env (searchOptions rq) = Inr result"
    and "trim (busquedaOf rq) \<noteq> []" and "fails QueryCreate"
  shows "search env fails now rq w =
           (Response 500 (ErrorBody ''Error al realizar la busqueda''),
            w\<lparr>console := console w @ [LogSearchError (StoreFailure QueryCreate)]\<rparr>)"
  using assms by (simp add: search_def hasSearchText_trim saveSearchQuery_text searchFailed_def)

text \<open>
  C2. When the catalog has answered and the query text is not blank, a throwing append
  fails the request: if \<open>saveSearchQuery\<close> throws, the handler logs the error and answers 500
  with an error message instead of the results, and nothing is stored; if the query is
  stored and \<open>saveSearchHistory\<close> (due because an owner is resolved and the page has
  results) throws, the handler logs the error and answers 500 as well, the query record
  staying in the store.
\<close>

theorem C2_store_failure_fails_search:
  assumes "searchAndFilterProducts env (searchOptions rq) = Inr result"
    and "trim (busquedaOf rq) \<noteq> []"
  shows "(fails QueryCreate \<longrightarrow>
            search env fails now rq w =
              (Response 500 (ErrorBody ''Error al realizar la busqueda''),
               w\<lparr>console := console w @ [LogSearchError (StoreFailure QueryCreate)]\<rparr>)) \<and>
         (\<not> fails QueryCreate \<and> fails HistorySave \<and> truthy (rq_userId rq) \<and>
          productos result \<noteq> [] \<longrightarrow>
            search env fails now rq w =
              (Response 500 (ErrorBody ''Error al realizar la busqueda''),
               w\<lparr>search_queries := search_queries w @
                    [\<lparr>q_id = rq_queryDocId rq, valor_busqueda = trim (busquedaOf rq),
                      q_fecha = now\<rparr>],
                 console := console w @
                    [LogQuerySaved (busquedaOf rq), LogSearchError (StoreFailure HistorySave)]\<rparr>))"
proof (intro conjI impI)
  have h: "hasSearchText rq"
    using assms(2) by (simp add: hasSearchText_trim)
  show "search env fails now rq w =
              (Response 500 (ErrorBody ''Error al realizar la busqueda''),
               w\<lparr>console := console w @ [LogSearchError (StoreFailure QueryCreate)]\<rparr>)"
    if "fails QueryCreate"
    using that assms h by (simp add: search_def saveSearchQuery_text searchFailed_def)
  show "search env fails now rq w =
              (Response 500 (ErrorBody ''Error al realizar la busqueda''),
               w\<lparr>search_queries := search_queries w @
                    [\<lparr>q_id = rq_queryDocId rq, valor_busqueda = trim (busquedaOf rq),
                      q_fecha = now\<rparr>],
                 console := console w @
                    [LogQuerySaved (busquedaOf rq), LogSearchError (StoreFailure HistorySave)]\<rparr>)"
    if c: "\<not> fails QueryCreate \<and> fails HistorySave \<and> truthy (rq_userId rq) \<and>
          productos result \<noteq> []"
  proof -
    have u: "userIdOf rq \<noteq> []" using c truthy_userIdOf by blast
    have b: "busquedaOf rq \<noteq> []" using h by (simp add: hasSearchText_def)
    show ?thesis
      using c assms h u b
      by (simp add: search_def saveSearchQuery_text searchFailed_def saveSearchHistory_def
          historyData_def Let_def)
  qed
qed



lemma trim_laptop: "trim ''laptop'' = ''laptop''"
  by (simp add: trim_def isWhiteSpace_def)


lemma demo_fetch: "fetchTodosProductos (demoCatalog n) = Inr (map demoProduct [0..<n])"
  by (simp add: fetchTodosProductos_def demoCatalog_def)

lemma Math_ceil_div_int:
  "b \<noteq> 0 \<Longrightarrow> Math_ceil_div a b = Fin (- (- int a div b))"
  using ceiling_divide_eq_div [of "int a" b, where ?'a = rat]
  by (simp add: Math_ceil_div_def)

lemma demo_search:
  assumes "applyOrdenar (fo_ordenar fo) (applyFilters laptopCatalog fo [demoProduct 0]) =
             [demoProduct 0]"
    and "fo_page fo = Some 1" and "fo_pageSize fo = Some 20"
  shows "searchAndFilterProducts laptopCatalog fo = Inr laptopResult"
proof -
  have f: "fetchTodosProductos laptopCatalog = Inr [demoProduct 0]"
    by (simp add: fetchTodosProductos_def laptopCatalog_def)
  have p: "paginate 1 20 [demoProduct 0] = laptopResult"
    by (simp add: paginate_def js_slice_def Math_ceil_div_int js_less_def Let_def
        laptopResult_def)
  show ?thesis
    by (simp add: searchAndFilterProducts_def f assms p)
qed

lemma laptop_catalog:
  "searchAndFilterProducts laptopCatalog (searchOptions laptopRequest) = Inr laptopResult"
proof (rule demo_search)
  show "applyOrdenar (fo_ordenar (searchOptions laptopRequest))
          (applyFilters laptopCatalog (searchOptions laptopRequest) [demoProduct 0]) =
        [demoProduct 0]"
    by (simp add: searchOptions_def laptopRequest_def busquedaOf_def precioRange_def
        applyFilters_def applyOrdenar_def truthy_def trim_laptop laptopCatalog_def
        demoProduct_def startsWith_def Let_def)
qed (simp_all add: searchOptions_def laptopRequest_def)



text \<open>
  The claim C2 as stated fails: the catalog returns a result for \<open>laptop\<close>, the query store
  throws, and the answer is the 500 error, not the result.
\<close>

theorem C2_counterexample:
  "busquedaOf laptopRequest = ''laptop'' \<and>
   searchAndFilterProducts laptopCatalog (searchOptions laptopRequest) = Inr laptopResult \<and>
   search laptopCatalog queryStoreDown 5 laptopRequest world0 =
     (Response 500 (ErrorBody ''Error al realizar la busqueda''),
      world0\<lparr>console := [LogSearchError (StoreFailure QueryCreate)]\<rparr>)"
proof -
  have b: "busquedaOf laptopRequest = ''laptop''"
    by (simp add: busquedaOf_def laptopRequest_def)
  have t: "trim (busquedaOf laptopRequest) \<noteq> []"
    by (simp add: b trim_laptop)
  have q: "queryStoreDown QueryCreate"
    by (simp add: queryStoreDown_def)
  have "search laptopCatalog queryStoreDown 5 laptopRequest world0 =
     (Response 500 (ErrorBody ''Error al realizar la busqueda''),
      world0\<lparr>console := [LogSearchError (StoreFailure QueryCreate)]\<rparr>)"
    using search_query_fails
      [where fails = queryStoreDown and now = 5 and w = world0, OF laptop_catalog t q]
    by (simp add: world0_def)
  with b laptop_catalog show ?thesis by simp
qed

theorem C2_store_failure_fails_search_witness:
  "searchAndFilterProducts laptopCatalog (searchOptions laptopRequest) = Inr laptopResult \<and>
   trim (busquedaOf laptopRequest) \<noteq> [] \<and>
   queryStoreDown QueryCreate \<and>
   search laptopCatalog queryStoreDown 5 laptopRequest world0 =
     (Response 500 (ErrorBody ''Error al realizar la busqueda''),
      world0\<lparr>console := [LogSearchError (StoreFailure QueryCreate)]\<rparr>) \<and>
   \<not> historyStoreDown QueryCreate \<and> historyStoreDown HistorySave \<and>
   truthy (rq_userId laptopRequest) \<and> productos laptopResult \<noteq> [] \<and>
   search laptopCatalog historyStoreDown 5 laptopRequest world0 =
     (Response 500 (ErrorBody ''Error al realizar la busqueda''),
      world0\<lparr>search_queries := [\<lparr>q_id = ''q9'', valor_busqueda = ''laptop'', q_fecha = 5\<rparr>],
             console := [LogQuerySaved ''laptop'', LogSearchError (StoreFailure HistorySave)]\<rparr>)"
proof -
  have t: "trim (busquedaOf laptopRequest) \<noteq> []"
    by (simp add: busquedaOf_def laptopRequest_def trim_laptop)
  have q: "queryStoreDown QueryCreate"
    by (simp add: queryStoreDown_def)
  have h: "\<not> historyStoreDown QueryCreate \<and> historyStoreDown HistorySave \<and>
           truthy (rq_userId laptopRequest) \<and> productos laptopResult \<noteq> []"
    by (simp add: historyStoreDown_def truthy_def laptopRequest_def laptopResult_def)
  note a = C2_store_failure_fails_search
    [where fails = queryStoreDown and now = 5 and w = world0, OF laptop_catalog t]
  note b = C2_store_failure_fails_search
    [where fails = historyStoreDown and now = 5 and w = world0, OF laptop_catalog t]
  from a q have 1: "search laptopCatalog queryStoreDown 5 laptopRequest world0 =
     (Response 500 (ErrorBody ''Error al realizar la busqueda''),
      world0\<lparr>console := [LogSearchError (StoreFailure QueryCreate)]\<rparr>)"
    by (simp add: world0_def)
  from b h have 2: "search laptopCatalog historyStoreDown 5 laptopRequest world0 =
     (Response 500 (ErrorBody ''Error al realizar la busqueda''),
      world0\<lparr>search_queries := [\<lparr>q_id = ''q9'', valor_busqueda = ''laptop'', q_fecha = 5\<rparr>],
             console := [LogQuerySaved ''laptop'', LogSearchError (StoreFailure HistorySave)]\<rparr>)"
    by (simp add: world0_def busquedaOf_def laptopRequest_def trim_laptop)
  from laptop_catalog t q h 1 2 show ?thesis by blast
qed



section \<open>Analytics exports and aggregations\<close>







lemma set_firstOccurrences [simp]: "set (firstOccurrences xs) = set xs"
  by (induction xs) auto


lemma g_id_groupOf [simp]: "g_id (groupOf cs pid) = pid"
  by (simp add: groupOf_def Let_def)

lemma g_clickCount_groupOf [simp]:
  "g_clickCount (groupOf cs pid) = length (filter (\<lambda>c. c_id_producto c = Some pid) cs)"
  by (simp add: groupOf_def Let_def)



lemma count_valid:
  "pid \<noteq> [] \<Longrightarrow>
   filter (\<lambda>c. c_id_producto c = Some pid) (filter validClick cs) =
   filter (\<lambda>c. c_id_producto c = Some pid) cs"
  by (induction cs) (auto simp: validClick_def)



lemma set_sortByClicksDesc [simp]: "set (sortByClicksDesc gs) = set gs"
  by (simp add: sortByClicksDesc_def)

lemma length_sortByClicksDesc [simp]: "length (sortByClicksDesc gs) = length gs"
  by (simp add: sortByClicksDesc_def)



















text \<open>
  The list joined against is the first page of the catalog (\<open>searchAndFilterProducts({})\<close>
  returns 20 products at most): the 21st product of a catalog of 25 is clicked, is in the
  catalog, and its entry comes back with \<open>producto = null\<close>.
\<close>

lemma popular_join_first_page:
  "find (\<lambda>p. id_producto p = id_producto (demoProduct 20)) (productosDemo (demoCatalog 25)) =
     Some (demoProduct 20) \<and>
   map producto
     (projr (getPopularProducts (demoCatalog 25) False [] noFaults 6
               (world0\<lparr>clicks := [clickOn (id_producto (demoProduct 20)) 1]\<rparr>))) = [Null]"
  by code_simp

end
